theory Spec2Isabelle
  imports Complex_Main
begin

section \<open>Python values used by \<^verbatim>\<open>py_to_dm_wrapper.py\<close>\<close>

text \<open>
  The module is a thin adapter between two environment conventions. Its three
  conversion functions and the class \<^verbatim>\<open>PyToDMWrapper\<close> are embedded below, function
  by function. Exceptions are values: a function that can raise returns
  \<open>py_error + 'a\<close>, with \<open>Inl\<close> for the raised exception. Only the class of an
  exception is kept, not its message.
\<close>

datatype py_error = ValueError | NotImplementedError | OtherError string

subsection \<open>numpy arrays, \<^verbatim>\<open>np.squeeze\<close> and \<^verbatim>\<open>ndarray.item\<close>\<close>

text \<open>
  An array is its shape and its elements in row-major order. The element type is a
  parameter: rewards and discounts are only moved around, never computed with, so
  nothing depends on how floating-point numbers are represented.
\<close>

record 'a ndarray =
  nd_shape :: "nat list"
  nd_data :: "'a list"

definition nd_size :: "'a ndarray \<Rightarrow> nat" where
  "nd_size a = prod_list (nd_shape a)"

definition nd_wf :: "'a ndarray \<Rightarrow> bool" where
  "nd_wf a = (length (nd_data a) = nd_size a)"

text \<open>\<^verbatim>\<open>np.squeeze(a)\<close>: every axis of length one is removed, the elements stay.\<close>

definition squeeze :: "'a ndarray \<Rightarrow> 'a ndarray" where
  "squeeze a = a\<lparr>nd_shape := filter (\<lambda>d. d \<noteq> 1) (nd_shape a)\<rparr>"

text \<open>
  \<^verbatim>\<open>a.item()\<close>: the single element of an array of size one as a Python scalar;
  ValueError for any other size.
\<close>

definition item :: "'a ndarray \<Rightarrow> py_error + 'a" where
  "item a = (case nd_data a of [x] \<Rightarrow> Inr x | _ \<Rightarrow> Inl ValueError)"

section \<open>Time steps\<close>

text \<open>
  A source time step is the tuple (step type, reward, discount, observation) with the
  three tests \<^verbatim>\<open>is_first()\<close>, \<^verbatim>\<open>is_mid()\<close>, \<^verbatim>\<open>is_last()\<close>. The class that implements the
  tests is not part of this module, so the outcome of each test is a field of the
  record: the converter sees the step type only through them, and nothing is assumed
  about how many of them hold.
\<close>

record ('a, 'o) time_step =
  is_first :: bool
  is_mid :: bool
  is_last :: bool
  reward :: "'a ndarray"
  discount :: "'a ndarray"
  observation :: 'o

datatype dm_step_type = FIRST | MID | LAST

text \<open>
  A reward or discount of a target time step is either a Python float (the literals
  \<^verbatim>\<open>0.0\<close> and \<^verbatim>\<open>1.0\<close>) or the array that \<^verbatim>\<open>np.squeeze\<close> returned.
\<close>

datatype 'a py_value = PyFloat real | NdArray "'a ndarray"

record ('a, 'o) dm_time_step =
  dm_step_type :: dm_step_type
  dm_reward :: "'a py_value"
  dm_discount :: "'a py_value"
  dm_observation :: 'o

definition convert_timestep :: "('a, 'o) time_step \<Rightarrow> py_error + ('a, 'o) dm_time_step" where
  "convert_timestep timestep =
     (case (if is_first timestep then Inr FIRST
            else if is_last timestep then Inr LAST
            else if is_mid timestep then Inr MID
            else Inl ValueError) of
        Inl e \<Rightarrow> Inl e
      | Inr step_type \<Rightarrow>
          Inr \<lparr>dm_step_type = step_type,
               dm_reward = (if is_first timestep then PyFloat 0
                            else NdArray (squeeze (reward timestep))),
               dm_discount = (if is_first timestep then PyFloat 1
                              else NdArray (squeeze (discount timestep))),
               dm_observation = observation timestep\<rparr>)"

section \<open>Array specs\<close>

text \<open>
  numpy element types, and \<^verbatim>\<open>np.issubdtype(dtype, np.integer)\<close>: true for the signed and
  unsigned integer types, false for booleans, floating and complex types.
\<close>

datatype np_dtype =
  Bool8 | Int8 | Int16 | Int32 | Int64 | UInt8 | UInt16 | UInt32 | UInt64
  | Float16 | Float32 | Float64 | Complex64 | Complex128

fun issubdtype_integer :: "np_dtype \<Rightarrow> bool" where
  "issubdtype_integer Int8 = True"
| "issubdtype_integer Int16 = True"
| "issubdtype_integer Int32 = True"
| "issubdtype_integer Int64 = True"
| "issubdtype_integer UInt8 = True"
| "issubdtype_integer UInt16 = True"
| "issubdtype_integer UInt32 = True"
| "issubdtype_integer UInt64 = True"
| "issubdtype_integer _ = False"

text \<open>
  The source convention has the class \<^verbatim>\<open>ArraySpec\<close> (shape, dtype, name) and its subclass
  \<^verbatim>\<open>BoundedArraySpec\<close>, which adds the arrays \<^verbatim>\<open>minimum\<close> and \<^verbatim>\<open>maximum\<close>. The type \<open>'v\<close>
  is the type of the elements of the bounds: Python integers for an integer dtype.
\<close>

datatype 'v array_spec =
  ArraySpec (shape: "nat list") (dtype: np_dtype) (name: "string option")
| BoundedArraySpec (shape: "nat list") (dtype: np_dtype)
    (minimum: "'v ndarray") (maximum: "'v ndarray") (name: "string option")

fun isinstance_BoundedArraySpec :: "'v array_spec \<Rightarrow> bool" where
  "isinstance_BoundedArraySpec (BoundedArraySpec _ _ _ _ _) = True"
| "isinstance_BoundedArraySpec (ArraySpec _ _ _) = False"

text \<open>
  The target convention has \<^verbatim>\<open>Array\<close>, \<^verbatim>\<open>BoundedArray\<close> and \<^verbatim>\<open>DiscreteArray\<close>. Their
  constructors are taken as plain data constructors, with the arguments in the order of
  the keyword arguments the module passes.
\<close>

datatype 'v dm_array =
  Array "nat list" np_dtype "string option"
| BoundedArray "nat list" np_dtype "'v ndarray" "'v ndarray" "string option"
| DiscreteArray 'v np_dtype "string option"

definition convert_spec :: "'v array_spec \<Rightarrow> 'v dm_array" where
  "convert_spec spec =
     (if isinstance_BoundedArraySpec spec
      then BoundedArray (shape spec) (dtype spec) (minimum spec) (maximum spec) (name spec)
      else Array (shape spec) (dtype spec) (name spec))"

text \<open>
  The condition of \<^verbatim>\<open>_convert_action_spec\<close> is a chain of \<^verbatim>\<open>and\<close>: \<^verbatim>\<open>minimum.item()\<close> is
  evaluated only after the three tests before it hold, and \<^verbatim>\<open>item\<close> can raise.
  \<^verbatim>\<open>item\<close> returns a Python integer for an integer dtype, so the arithmetic is
  unbounded.
\<close>

definition convert_action_spec ::
  "'v::{zero,one,plus,minus} array_spec \<Rightarrow> py_error + 'v dm_array" where
  "convert_action_spec spec =
     (if isinstance_BoundedArraySpec spec \<and> shape spec = []
         \<and> issubdtype_integer (dtype spec)
      then (case item (minimum spec) of
              Inl e \<Rightarrow> Inl e
            | Inr m \<Rightarrow>
                if m = 0
                then (case item (maximum spec) of
                        Inl e \<Rightarrow> Inl e
                      | Inr mx \<Rightarrow>
                          (case item (minimum spec) of
                             Inl e \<Rightarrow> Inl e
                           | Inr mn \<Rightarrow>
                               Inr (DiscreteArray (mx - mn + 1) (dtype spec) (name spec))))
                else Inr (convert_spec spec))
      else Inr (convert_spec spec))"

section \<open>Nested structures and \<^verbatim>\<open>tree.map_structure\<close>\<close>

text \<open>
  Specs come as nested containers: lists, tuples and dictionaries (keys in insertion
  order) with specs at the leaves. \<^verbatim>\<open>tree.map_structure(f, s)\<close> applies \<open>f\<close> to every leaf
  and rebuilds the containers around the results; an exception of \<open>f\<close> propagates.
  The library is not part of this module: the traversal below is its documented
  behaviour. The order in which the leaves are visited decides only which exception is
  seen first, and the leaf converters of this module raise nothing but ValueError.
\<close>

datatype 'a nest =
  Leaf 'a
| ListOf "'a nest list"
| TupleOf "'a nest list"
| DictOf "(string \<times> 'a nest) list"

fun sequence_e :: "(py_error + 'b) list \<Rightarrow> py_error + 'b list" where
  "sequence_e [] = Inr []"
| "sequence_e (Inl e # rs) = Inl e"
| "sequence_e (Inr y # rs) = (case sequence_e rs of Inl e \<Rightarrow> Inl e | Inr ys \<Rightarrow> Inr (y # ys))"

fun with_key :: "string \<Rightarrow> py_error + 'b \<Rightarrow> py_error + (string \<times> 'b)" where
  "with_key k (Inl e) = Inl e"
| "with_key k (Inr y) = Inr (k, y)"

fun map_structure :: "('a \<Rightarrow> py_error + 'b) \<Rightarrow> 'a nest \<Rightarrow> py_error + 'b nest" where
  "map_structure f (Leaf x) = (case f x of Inl e \<Rightarrow> Inl e | Inr y \<Rightarrow> Inr (Leaf y))"
| "map_structure f (ListOf xs) =
     (case sequence_e (map (map_structure f) xs) of
        Inl e \<Rightarrow> Inl e | Inr ys \<Rightarrow> Inr (ListOf ys))"
| "map_structure f (TupleOf xs) =
     (case sequence_e (map (map_structure f) xs) of
        Inl e \<Rightarrow> Inl e | Inr ys \<Rightarrow> Inr (TupleOf ys))"
| "map_structure f (DictOf kvs) =
     (case sequence_e (map (\<lambda>(k, v). with_key k (map_structure f v)) kvs) of
        Inl e \<Rightarrow> Inl e | Inr kys \<Rightarrow> Inr (DictOf kys))"

text \<open>The shape of a structure (its containers and keys), and its leaves from left to right.\<close>

fun structure_of :: "'a nest \<Rightarrow> unit nest" where
  "structure_of (Leaf x) = Leaf ()"
| "structure_of (ListOf xs) = ListOf (map structure_of xs)"
| "structure_of (TupleOf xs) = TupleOf (map structure_of xs)"
| "structure_of (DictOf kvs) = DictOf (map (\<lambda>(k, v). (k, structure_of v)) kvs)"

fun flatten :: "'a nest \<Rightarrow> 'a list" where
  "flatten (Leaf x) = [x]"
| "flatten (ListOf xs) = concat (map flatten xs)"
| "flatten (TupleOf xs) = concat (map flatten xs)"
| "flatten (DictOf kvs) = concat (map (\<lambda>(k, v). flatten v) kvs)"

section \<open>The adapter \<^verbatim>\<open>PyToDMWrapper\<close>\<close>

text \<open>
  The wrapped environment is an object of another module. It is taken as a parameter:
  a state of type \<open>'e\<close> and, for each member the adapter uses, a function of that state
  which returns a result or an exception together with the next state. Nothing is
  assumed about these functions: a spec method may answer differently on every call.
\<close>

record ('e, 'v, 'a, 'o, 'act) py_environment =
  batched :: "'e \<Rightarrow> bool"
  env_observation_spec :: "'e \<Rightarrow> (py_error + 'v array_spec nest) \<times> 'e"
  env_action_spec :: "'e \<Rightarrow> (py_error + 'v array_spec nest) \<times> 'e"
  env_discount_spec :: "'e \<Rightarrow> (py_error + 'v array_spec nest) \<times> 'e"
  env_reset :: "'e \<Rightarrow> (py_error + ('a, 'o) time_step) \<times> 'e"
  env_step :: "'act \<Rightarrow> 'e \<Rightarrow> (py_error + ('a, 'o) time_step) \<times> 'e"
  env_close :: "'e \<Rightarrow> (py_error + unit) \<times> 'e"

text \<open>
  The members of the wrapped environment that the adapter has used so far are recorded
  in a log, so that a theorem can say which of them a method touches.
\<close>

datatype env_call =
  Get_batched | Call_observation_spec | Call_action_spec | Call_discount_spec
  | Call_reset | Call_step | Call_close

fun is_spec_call :: "env_call \<Rightarrow> bool" where
  "is_spec_call Call_observation_spec = True"
| "is_spec_call Call_action_spec = True"
| "is_spec_call Call_discount_spec = True"
| "is_spec_call _ = False"

text \<open>
  A constructed adapter: the state of the environment that \<^verbatim>\<open>self._environment\<close> refers
  to, the three attributes that \<^verbatim>\<open>__init__\<close> assigns, and the log.
\<close>

record ('e, 'v) PyToDMWrapper =
  env_state :: 'e
  env_calls :: "env_call list"
  observation_spec_attr :: "'v dm_array nest"
  action_spec_attr :: "'v dm_array nest"
  discount_spec_attr :: "'v dm_array nest"

text \<open>
  \<^verbatim>\<open>__init__\<close> either raises, leaving the environment in some state after the calls
  logged, or returns the adapter.
\<close>

definition init ::
  "('e, 'v::{zero,one,plus,minus}, 'a, 'o, 'act) py_environment \<Rightarrow> 'e
     \<Rightarrow> (py_error \<times> 'e \<times> env_call list) + ('e, 'v) PyToDMWrapper" where
  "init env e0 =
     (if batched env e0 then Inl (NotImplementedError, e0, [Get_batched])
      else
        (case env_observation_spec env e0 of
           (Inl err, e1) \<Rightarrow> Inl (err, e1, [Get_batched, Call_observation_spec])
         | (Inr ospec, e1) \<Rightarrow>
        (case map_structure (\<lambda>s. Inr (convert_spec s)) ospec of
           Inl err \<Rightarrow> Inl (err, e1, [Get_batched, Call_observation_spec])
         | Inr obs \<Rightarrow>
        (case env_action_spec env e1 of
           (Inl err, e2) \<Rightarrow>
             Inl (err, e2, [Get_batched, Call_observation_spec, Call_action_spec])
         | (Inr aspec, e2) \<Rightarrow>
        (case map_structure convert_action_spec aspec of
           Inl err \<Rightarrow> Inl (err, e2, [Get_batched, Call_observation_spec, Call_action_spec])
         | Inr act \<Rightarrow>
        (case env_discount_spec env e2 of
           (Inl err, e3) \<Rightarrow>
             Inl (err, e3, [Get_batched, Call_observation_spec, Call_action_spec,
                            Call_discount_spec])
         | (Inr dspec, e3) \<Rightarrow>
        (case map_structure (\<lambda>s. Inr (convert_spec s)) dspec of
           Inl err \<Rightarrow>
             Inl (err, e3, [Get_batched, Call_observation_spec, Call_action_spec,
                            Call_discount_spec])
         | Inr disc \<Rightarrow>
             Inr \<lparr>env_state = e3,
                  env_calls = [Get_batched, Call_observation_spec, Call_action_spec,
                               Call_discount_spec],
                  observation_spec_attr = obs,
                  action_spec_attr = act,
                  discount_spec_attr = disc\<rparr>)))))))"

text \<open>The methods: each returns its result or exception, and the adapter afterwards.\<close>

datatype ('v, 'a, 'o) py_result =
  TimeStepResult "('a, 'o) dm_time_step"
| SpecResult "'v dm_array nest"
| NoneResult

definition reset ::
  "('e, 'v, 'a, 'o, 'act) py_environment \<Rightarrow> ('e, 'v) PyToDMWrapper
     \<Rightarrow> (py_error + ('v, 'a, 'o) py_result) \<times> ('e, 'v) PyToDMWrapper" where
  "reset env self =
     (case env_reset env (env_state self) of
        (r, e') \<Rightarrow>
          (case r of
             Inl err \<Rightarrow> Inl err
           | Inr ts \<Rightarrow> map_sum id TimeStepResult (convert_timestep ts),
           self\<lparr>env_state := e', env_calls := env_calls self @ [Call_reset]\<rparr>))"

definition step ::
  "('e, 'v, 'a, 'o, 'act) py_environment \<Rightarrow> 'act \<Rightarrow> ('e, 'v) PyToDMWrapper
     \<Rightarrow> (py_error + ('v, 'a, 'o) py_result) \<times> ('e, 'v) PyToDMWrapper" where
  "step env action self =
     (case env_step env action (env_state self) of
        (r, e') \<Rightarrow>
          (case r of
             Inl err \<Rightarrow> Inl err
           | Inr ts \<Rightarrow> map_sum id TimeStepResult (convert_timestep ts),
           self\<lparr>env_state := e', env_calls := env_calls self @ [Call_step]\<rparr>))"

definition observation_spec ::
  "('e, 'v) PyToDMWrapper \<Rightarrow> (py_error + ('v, 'a, 'o) py_result) \<times> ('e, 'v) PyToDMWrapper" where
  "observation_spec self = (Inr (SpecResult (observation_spec_attr self)), self)"

definition action_spec ::
  "('e, 'v) PyToDMWrapper \<Rightarrow> (py_error + ('v, 'a, 'o) py_result) \<times> ('e, 'v) PyToDMWrapper" where
  "action_spec self = (Inr (SpecResult (action_spec_attr self)), self)"

definition discount_spec ::
  "('e, 'v) PyToDMWrapper \<Rightarrow> (py_error + ('v, 'a, 'o) py_result) \<times> ('e, 'v) PyToDMWrapper" where
  "discount_spec self = (Inr (SpecResult (discount_spec_attr self)), self)"

definition close ::
  "('e, 'v, 'a, 'o, 'act) py_environment \<Rightarrow> ('e, 'v) PyToDMWrapper
     \<Rightarrow> (py_error + ('v, 'a, 'o) py_result) \<times> ('e, 'v) PyToDMWrapper" where
  "close env self =
     (case env_close env (env_state self) of
        (r, e') \<Rightarrow>
          (case r of Inl err \<Rightarrow> Inl err | Inr _ \<Rightarrow> Inr NoneResult,
           self\<lparr>env_state := e', env_calls := env_calls self @ [Call_close]\<rparr>))"

text \<open>A caller's use of the adapter over its lifetime: any sequence of method calls.\<close>

datatype 'act method_call =
  Reset | Step 'act | ObservationSpec | ActionSpec | DiscountSpec | Close

fun call_method ::
  "('e, 'v, 'a, 'o, 'act) py_environment \<Rightarrow> 'act method_call \<Rightarrow> ('e, 'v) PyToDMWrapper
     \<Rightarrow> (py_error + ('v, 'a, 'o) py_result) \<times> ('e, 'v) PyToDMWrapper" where
  "call_method env Reset self = reset env self"
| "call_method env (Step action) self = step env action self"
| "call_method env ObservationSpec self = observation_spec self"
| "call_method env ActionSpec self = action_spec self"
| "call_method env DiscountSpec self = discount_spec self"
| "call_method env Close self = close env self"

fun call_methods ::
  "('e, 'v, 'a, 'o, 'act) py_environment \<Rightarrow> 'act method_call list \<Rightarrow> ('e, 'v) PyToDMWrapper
     \<Rightarrow> (py_error + ('v, 'a, 'o) py_result) list \<times> ('e, 'v) PyToDMWrapper" where
  "call_methods env [] self = ([], self)"
| "call_methods env (c # cs) self =
     (case call_method env c self of
        (r, self') \<Rightarrow>
          (case call_methods env cs self' of (rs, self'') \<Rightarrow> (r # rs, self'')))"

section \<open>Time steps with one phase indicator\<close>

text \<open>
  Modelled from the spec: the class \<^verbatim>\<open>TimeStep\<close> is not part of this module. A source
  time step is the tuple (step type, reward, discount, observation): it carries one
  phase indicator, the \<^verbatim>\<open>timestep.step_type\<close> that the converter reads for its error
  message, and each of the three tests compares that indicator with one phase. The
  indicator of a conforming environment is first, mid or last; any other value is kept
  as it is.
\<close>

datatype step_type = StepFirst | StepMid | StepLast | StepUnknown int



section \<open>Well-formed specs\<close>

text \<open>
  \<^verbatim>\<open>np.broadcast_to\<close>: a shape broadcasts to a target shape when, aligned at the last
  axis, each of its dimensions is one or equals the target's.
\<close>

definition broadcastable_to :: "nat list \<Rightarrow> nat list \<Rightarrow> bool" where
  "broadcastable_to s t =
     (length s \<le> length t
      \<and> list_all2 (\<lambda>m n. m = 1 \<or> m = n) s (drop (length t - length s) t))"

text \<open>
  Modelled from the spec: the class \<^verbatim>\<open>BoundedArraySpec\<close> is not part of this module. A
  bounded spec describes an array of its shape by an inclusive minimum and maximum, so
  its bounds are arrays (as many elements as their shape says) that broadcast to the
  shape of the spec. For a spec of empty shape both bounds then have empty shape and a
  single element.
\<close>

definition spec_wf :: "'v array_spec \<Rightarrow> bool" where
  "spec_wf spec =
     (isinstance_BoundedArraySpec spec \<longrightarrow>
        nd_wf (minimum spec) \<and> nd_wf (maximum spec)
        \<and> broadcastable_to (nd_shape (minimum spec)) (shape spec)
        \<and> broadcastable_to (nd_shape (maximum spec)) (shape spec))"

section \<open>Auxiliary predicates\<close>

text \<open>
  \<open>same_leafwise f t u\<close>: \<open>u\<close> has the containers and keys of \<open>t\<close>, and its leaves are
  the results of \<open>f\<close> on the leaves of \<open>t\<close>, in the same order.
\<close>

definition same_leafwise :: "('a \<Rightarrow> py_error + 'b) \<Rightarrow> 'a nest \<Rightarrow> 'b nest \<Rightarrow> bool" where
  "same_leafwise f t u =
     (structure_of u = structure_of t \<and> map Inr (flatten u) = map f (flatten t))"

text \<open>
  \<open>returns_cached self c r\<close>: if the call \<open>c\<close> is one of the three spec accessors, its
  result \<open>r\<close> is the corresponding attribute of \<open>self\<close>.
\<close>

fun returns_cached ::
  "('e, 'v) PyToDMWrapper \<Rightarrow> 'act method_call \<Rightarrow> py_error + ('v, 'a, 'o) py_result \<Rightarrow> bool" where
  "returns_cached self ObservationSpec r = (r = Inr (SpecResult (observation_spec_attr self)))"
| "returns_cached self ActionSpec r = (r = Inr (SpecResult (action_spec_attr self)))"
| "returns_cached self DiscountSpec r = (r = Inr (SpecResult (discount_spec_attr self)))"
| "returns_cached self _ r = True"

section \<open>Concrete inputs\<close>

definition example_first_step :: "(real, nat list) time_step" where
  "example_first_step =
     \<lparr>is_first = True, is_mid = False, is_last = False,
      reward = \<lparr>nd_shape = [2], nd_data = [7 / 2, - 1]\<rparr>,
      discount = \<lparr>nd_shape = [], nd_data = [1 / 4]\<rparr>,
      observation = [3]\<rparr>"

definition example_mid_step :: "(real, nat list) time_step" where
  "example_mid_step =
     \<lparr>is_first = False, is_mid = True, is_last = False,
      reward = \<lparr>nd_shape = [1], nd_data = [7 / 2]\<rparr>,
      discount = \<lparr>nd_shape = [2], nd_data = [1, 1 / 2]\<rparr>,
      observation = [4, 5]\<rparr>"

definition example_last_step :: "(real, nat list) time_step" where
  "example_last_step =
     \<lparr>is_first = False, is_mid = False, is_last = True,
      reward = \<lparr>nd_shape = [1, 1], nd_data = [2]\<rparr>,
      discount = \<lparr>nd_shape = [], nd_data = [0]\<rparr>,
      observation = [6, 7, 8]\<rparr>"

definition example_first_and_last_step :: "(real, nat list) time_step" where
  "example_first_and_last_step =
     \<lparr>is_first = True, is_mid = False, is_last = True,
      reward = \<lparr>nd_shape = [1], nd_data = [2]\<rparr>,
      discount = \<lparr>nd_shape = [], nd_data = [1 / 2]\<rparr>,
      observation = [9]\<rparr>"

definition example_discrete :: "int array_spec" where
  "example_discrete =
     BoundedArraySpec [] Int32 \<lparr>nd_shape = [], nd_data = [0]\<rparr> \<lparr>nd_shape = [], nd_data = [4]\<rparr>
       (Some ''action'')"

definition example_bounded :: "int array_spec" where
  "example_bounded =
     BoundedArraySpec [2] Int32 \<lparr>nd_shape = [], nd_data = [0]\<rparr> \<lparr>nd_shape = [2], nd_data = [4, 9]\<rparr>
       (Some ''position'')"

definition example_tree :: "int array_spec nest" where
  "example_tree = DictOf [(''position'', Leaf example_bounded), (''move'', Leaf example_discrete)]"

definition example_env :: "bool \<Rightarrow> (nat, int, real, nat list, nat) py_environment" where
  "example_env b =
     \<lparr>batched = (\<lambda>e. b),
      env_observation_spec = (\<lambda>e. (Inr (Leaf (ArraySpec [e] Float32 None)), Suc e)),
      env_action_spec = (\<lambda>e. (Inr example_tree, Suc e)),
      env_discount_spec = (\<lambda>e. (Inr (Leaf (ArraySpec [] Float32 (Some ''discount''))), Suc e)),
      env_reset = (\<lambda>e. (Inr example_first_step, Suc e)),
      env_step = (\<lambda>action e. (Inr example_mid_step, Suc e)),
      env_close = (\<lambda>e. (Inr (), e))\<rparr>"

definition example_unbounded :: "int array_spec" where
  "example_unbounded = ArraySpec [3, 2] Float32 (Some ''pixels'')"

definition example_wrapper :: "(nat, int) PyToDMWrapper" where
  "example_wrapper =
     \<lparr>env_state = 3,
      env_calls = [Get_batched, Call_observation_spec, Call_action_spec, Call_discount_spec],
      observation_spec_attr = Leaf (Array [0] Float32 None),
      action_spec_attr =
        DictOf [(''position'', Leaf (BoundedArray [2] Int32 \<lparr>nd_shape = [], nd_data = [0]\<rparr>
                                      \<lparr>nd_shape = [2], nd_data = [4, 9]\<rparr> (Some ''position''))),
                (''move'', Leaf (DiscreteArray 5 Int32 (Some ''action'')))],
      discount_spec_attr = Leaf (Array [] Float32 (Some ''discount''))\<rparr>"

section \<open>Properties of the time step converter\<close>

lemma squeeze_data: "nd_data (squeeze a) = nd_data a"
  by (simp add: squeeze_def)

lemma squeeze_shape: "nd_shape (squeeze a) = filter (\<lambda>d. d \<noteq> 1) (nd_shape a)"
  by (simp add: squeeze_def)

lemma prod_list_filter_not_one: "prod_list (filter (\<lambda>d. d \<noteq> 1) ds) = prod_list (ds :: nat list)"
  by (induction ds) simp_all

lemma squeeze_size: "nd_size (squeeze a) = nd_size a"
  unfolding nd_size_def squeeze_shape by (rule prod_list_filter_not_one)

lemma squeeze_wf: "nd_wf a \<Longrightarrow> nd_wf (squeeze a)"
  by (simp add: nd_wf_def squeeze_size squeeze_data)

lemma squeeze_no_singleton: "1 \<notin> set (nd_shape (squeeze a))"
  by (simp add: squeeze_shape)

lemma squeeze_id: "1 \<notin> set (nd_shape a) \<Longrightarrow> squeeze a = a"
proof -
  assume "1 \<notin> set (nd_shape a)"
  then have "filter (\<lambda>d. d \<noteq> 1) (nd_shape a) = nd_shape a"
    by (induction "nd_shape a") (auto simp: filter_id_conv)
  then show ?thesis by (simp add: squeeze_def)
qed

text \<open>
  C1. On a time step whose \<^verbatim>\<open>is_first()\<close> holds the conversion succeeds, and the
  converted reward is the float 0.0 and the converted discount the float 1.0, whatever
  the reward and discount of the source are.
\<close>

theorem convert_timestep_first:
  "is_first ts \<Longrightarrow>
     \<exists>r. convert_timestep ts = Inr r \<and> dm_reward r = PyFloat 0 \<and> dm_discount r = PyFloat 1"
  by (simp add: convert_timestep_def)

theorem convert_timestep_first_witness:
  "is_first example_first_step
   \<and> convert_timestep example_first_step
       = Inr \<lparr>dm_step_type = FIRST, dm_reward = PyFloat 0, dm_discount = PyFloat 1,
              dm_observation = [3]\<rparr>"
  using convert_timestep_first [of example_first_step]
  by (simp add: example_first_step_def convert_timestep_def)

text \<open>
  C3. On a time step that is not first and is mid or last, the conversion succeeds and
  the converted reward and discount are the arrays of the source with every axis of
  length one removed and the elements unchanged: the result has no axis of length one,
  and an array that had none (a true vector) comes back as it was. In the example that
  follows, the reward \<^verbatim>\<open>[3.5]\<close> of shape (1,) becomes the scalar 3.5 of empty shape.
\<close>

theorem convert_timestep_mid_last:
  assumes "\<not> is_first ts" and "is_mid ts \<or> is_last ts"
  shows "\<exists>r rw dc. convert_timestep ts = Inr r
           \<and> dm_reward r = NdArray rw \<and> dm_discount r = NdArray dc
           \<and> nd_shape rw = filter (\<lambda>d. d \<noteq> 1) (nd_shape (reward ts))
           \<and> nd_data rw = nd_data (reward ts)
           \<and> nd_shape dc = filter (\<lambda>d. d \<noteq> 1) (nd_shape (discount ts))
           \<and> nd_data dc = nd_data (discount ts)
           \<and> 1 \<notin> set (nd_shape rw) \<and> 1 \<notin> set (nd_shape dc)
           \<and> (1 \<notin> set (nd_shape (reward ts)) \<longrightarrow> rw = reward ts)
           \<and> (1 \<notin> set (nd_shape (discount ts)) \<longrightarrow> dc = discount ts)"
proof -
  let ?rw = "squeeze (reward ts)" and ?dc = "squeeze (discount ts)"
  from assms have "\<exists>st. convert_timestep ts =
      Inr \<lparr>dm_step_type = st, dm_reward = NdArray ?rw, dm_discount = NdArray ?dc,
           dm_observation = observation ts\<rparr>"
    by (auto simp: convert_timestep_def)
  then obtain st where conv: "convert_timestep ts =
      Inr \<lparr>dm_step_type = st, dm_reward = NdArray ?rw, dm_discount = NdArray ?dc,
           dm_observation = observation ts\<rparr>" ..
  have "nd_shape ?rw = filter (\<lambda>d. d \<noteq> 1) (nd_shape (reward ts))"
    and "nd_data ?rw = nd_data (reward ts)"
    and "nd_shape ?dc = filter (\<lambda>d. d \<noteq> 1) (nd_shape (discount ts))"
    and "nd_data ?dc = nd_data (discount ts)"
    by (rule squeeze_shape squeeze_data)+
  moreover have "1 \<notin> set (nd_shape ?rw)" and "1 \<notin> set (nd_shape ?dc)"
    by (rule squeeze_no_singleton)+
  moreover have "1 \<notin> set (nd_shape (reward ts)) \<longrightarrow> ?rw = reward ts"
    and "1 \<notin> set (nd_shape (discount ts)) \<longrightarrow> ?dc = discount ts"
    using squeeze_id by blast+
  ultimately show ?thesis using conv by simp
qed

theorem convert_timestep_mid_last_witness:
  "\<not> is_first example_mid_step \<and> is_mid example_mid_step
   \<and> convert_timestep example_mid_step
       = Inr \<lparr>dm_step_type = MID,
              dm_reward = NdArray \<lparr>nd_shape = [], nd_data = [7 / 2]\<rparr>,
              dm_discount = NdArray \<lparr>nd_shape = [2], nd_data = [1, 1 / 2]\<rparr>,
              dm_observation = [4, 5]\<rparr>"
  using convert_timestep_mid_last [of example_mid_step]
  by (simp add: example_mid_step_def convert_timestep_def squeeze_def)



text \<open>
  C7. Whenever the conversion returns, the observation of the result is the observation
  of the source, whatever the phase; and it returns as soon as one of the tests holds.
\<close>

theorem convert_timestep_observation:
  "(\<forall>r. convert_timestep ts = Inr r \<longrightarrow> dm_observation r = observation ts)
   \<and> (is_first ts \<or> is_mid ts \<or> is_last ts
        \<longrightarrow> (\<exists>r. convert_timestep ts = Inr r \<and> dm_observation r = observation ts))"
  by (auto simp: convert_timestep_def)

theorem convert_timestep_observation_witness:
  "is_last example_last_step
   \<and> (\<exists>r. convert_timestep example_last_step = Inr r \<and> dm_observation r = [6, 7, 8])"
  using convert_timestep_observation [of example_last_step]
  by (simp add: example_last_step_def)

text \<open>
  C10. The tests are tried in the order first, last, mid, and the first that holds
  decides the step type: FIRST (with reward 0.0 and discount 1.0) whenever \<^verbatim>\<open>is_first()\<close>
  holds, LAST when it does not and \<^verbatim>\<open>is_last()\<close> holds, MID when only \<^verbatim>\<open>is_mid()\<close> is left.
  The conversion raises only when all three fail.
\<close>

theorem convert_timestep_order:
  "(is_first ts \<longrightarrow>
      (\<exists>r. convert_timestep ts = Inr r \<and> dm_step_type r = FIRST
            \<and> dm_reward r = PyFloat 0 \<and> dm_discount r = PyFloat 1))
   \<and> (\<not> is_first ts \<and> is_last ts \<longrightarrow>
      (\<exists>r. convert_timestep ts = Inr r \<and> dm_step_type r = LAST))
   \<and> (\<not> is_first ts \<and> \<not> is_last ts \<and> is_mid ts \<longrightarrow>
      (\<exists>r. convert_timestep ts = Inr r \<and> dm_step_type r = MID))
   \<and> ((\<exists>e. convert_timestep ts = Inl e) = (\<not> is_first ts \<and> \<not> is_last ts \<and> \<not> is_mid ts))"
  by (auto simp: convert_timestep_def)

theorem convert_timestep_order_witness:
  "is_first example_first_and_last_step \<and> is_last example_first_and_last_step
   \<and> convert_timestep example_first_and_last_step
       = Inr \<lparr>dm_step_type = FIRST, dm_reward = PyFloat 0, dm_discount = PyFloat 1,
              dm_observation = [9]\<rparr>"
  using convert_timestep_order [of example_first_and_last_step]
  by (simp add: example_first_and_last_step_def convert_timestep_def)

section \<open>Properties of the spec converters\<close>

lemma broadcastable_to_Nil: "broadcastable_to s [] = (s = [])"
  by (auto simp: broadcastable_to_def)

lemma nd_wf_scalar: "nd_wf a \<Longrightarrow> nd_shape a = [] \<Longrightarrow> \<exists>x. nd_data a = [x]"
  by (cases "nd_data a") (auto simp: nd_wf_def nd_size_def)

lemma item_scalar: "nd_wf a \<Longrightarrow> broadcastable_to (nd_shape a) [] \<Longrightarrow> \<exists>x. nd_data a = [x] \<and> item a = Inr x"
  using nd_wf_scalar [of a] by (auto simp: broadcastable_to_Nil item_def)

lemma item_Inr: "(item a = Inr x) = (nd_data a = [x])"
  by (auto simp: item_def split: list.splits)
lemma convert_action_spec_succeeds: "spec_wf spec \<Longrightarrow> \<exists>d. convert_action_spec spec = Inr d"
proof (cases "isinstance_BoundedArraySpec spec \<and> shape spec = []
                \<and> issubdtype_integer (dtype spec)")
  case False
  then show ?thesis by (auto simp: convert_action_spec_def)
next
  case True
  assume "spec_wf spec"
  with True obtain mn mx where "item (minimum spec) = Inr mn" and "item (maximum spec) = Inr mx"
    using item_scalar [of "minimum spec"] item_scalar [of "maximum spec"]
    by (auto simp: spec_wf_def)
  with True show ?thesis by (simp add: convert_action_spec_def)
qed

text \<open>
  C6. \<^verbatim>\<open>_convert_spec\<close> turns a bounded spec into a bounded descriptor with the same shape,
  dtype, minimum, maximum and name, and any other spec into an array descriptor with the
  same shape, dtype and name. It never returns a discrete descriptor.
\<close>

theorem convert_spec_cases:
  "convert_spec (BoundedArraySpec sh dt mn mx nm) = BoundedArray sh dt mn mx nm
   \<and> convert_spec (ArraySpec sh dt nm) = Array sh dt nm
   \<and> (\<forall>spec n d nm'. convert_spec spec \<noteq> DiscreteArray n d nm')"
  by (simp add: convert_spec_def)

theorem convert_spec_cases_witness:
  "convert_spec example_bounded
     = BoundedArray [2] Int32 \<lparr>nd_shape = [], nd_data = [0]\<rparr> \<lparr>nd_shape = [2], nd_data = [4, 9]\<rparr>
         (Some ''position'')
   \<and> convert_spec example_unbounded = Array [3, 2] Float32 (Some ''pixels'')
   \<and> convert_spec example_discrete
       = BoundedArray [] Int32 \<lparr>nd_shape = [], nd_data = [0]\<rparr> \<lparr>nd_shape = [], nd_data = [4]\<rparr>
           (Some ''action'')"
  using convert_spec_cases [of "[2]" Int32 "\<lparr>nd_shape = [], nd_data = [0 :: int]\<rparr>"
      "\<lparr>nd_shape = [2], nd_data = [4, 9]\<rparr>" "Some ''position''"]
  by (simp add: example_bounded_def example_unbounded_def example_discrete_def convert_spec_def)

text \<open>
  C2. For a well-formed spec, \<^verbatim>\<open>_convert_action_spec\<close> returns a discrete descriptor
  exactly when the spec is bounded, has empty shape, has an integer dtype and its minimum
  is 0. The descriptor then has \<^verbatim>\<open>num_values\<close> = maximum - minimum + 1 and the dtype and
  name of the spec. Every other bounded spec becomes a bounded descriptor with the shape,
  dtype, bounds and name of the spec. In the example that follows, minimum 0 and maximum
  4 give 5 values.
\<close>

theorem convert_action_spec_discrete:
  assumes "spec_wf spec"
  shows "((\<exists>n d nm. convert_action_spec spec = Inr (DiscreteArray n d nm))
          = (isinstance_BoundedArraySpec spec \<and> shape spec = []
             \<and> issubdtype_integer (dtype spec) \<and> item (minimum spec) = Inr 0))
     \<and> (isinstance_BoundedArraySpec spec \<and> shape spec = []
          \<and> issubdtype_integer (dtype spec) \<and> item (minimum spec) = Inr 0
        \<longrightarrow> (\<exists>mn mx. item (minimum spec) = Inr mn \<and> item (maximum spec) = Inr mx
              \<and> convert_action_spec spec
                  = Inr (DiscreteArray (mx - mn + 1) (dtype spec) (name spec))))
     \<and> (isinstance_BoundedArraySpec spec
          \<and> \<not> (shape spec = [] \<and> issubdtype_integer (dtype spec)
                 \<and> item (minimum spec) = Inr 0)
        \<longrightarrow> convert_action_spec spec
              = Inr (BoundedArray (shape spec) (dtype spec) (minimum spec) (maximum spec)
                       (name spec)))"
proof (cases "isinstance_BoundedArraySpec spec \<and> shape spec = []
                \<and> issubdtype_integer (dtype spec)")
  case False
  then have "convert_action_spec spec = Inr (convert_spec spec)"
    by (auto simp: convert_action_spec_def)
  with False show ?thesis by (auto simp: convert_spec_def)
next
  case True
  with assms obtain mn mx where mn: "item (minimum spec) = Inr mn"
    and mx: "item (maximum spec) = Inr mx"
    using item_scalar [of "minimum spec"] item_scalar [of "maximum spec"]
    by (auto simp: spec_wf_def)
  show ?thesis
  proof (cases "mn = 0")
    case z: True
    with True mn mx have "convert_action_spec spec
        = Inr (DiscreteArray (mx - mn + 1) (dtype spec) (name spec))"
      by (simp add: convert_action_spec_def)
    with True mn mx z show ?thesis by simp
  next
    case nz: False
    with True mn have "convert_action_spec spec = Inr (convert_spec spec)"
      by (simp add: convert_action_spec_def)
    with True mn nz show ?thesis by (simp add: convert_spec_def)
  qed
qed

theorem convert_action_spec_discrete_witness:
  "spec_wf example_discrete
   \<and> convert_action_spec example_discrete = Inr (DiscreteArray 5 Int32 (Some ''action''))"
  using convert_action_spec_discrete [of example_discrete]
  by (simp add: example_discrete_def spec_wf_def nd_wf_def nd_size_def broadcastable_to_def
      item_def)

section \<open>Properties of \<^verbatim>\<open>map_structure\<close>\<close>

lemma sequence_e_map_Inr: "sequence_e (map Inr ys) = Inr ys"
  by (induction ys) simp_all

lemma sequence_e_Inr_D: "sequence_e rs = Inr ys \<Longrightarrow> rs = map Inr ys"
  by (induction rs arbitrary: ys rule: sequence_e.induct) (auto split: sum.splits)

lemma sequence_e_Inr: "(sequence_e rs = Inr ys) = (rs = map Inr ys)"
  using sequence_e_Inr_D sequence_e_map_Inr by blast

lemma with_key_Inr: "(with_key k r = Inr p) = (\<exists>y. r = Inr y \<and> p = (k, y))"
  by (cases r) auto

lemma map_Inr_all2: "map g xs = map Inr ys \<Longrightarrow> list_all2 (\<lambda>x y. g x = Inr y) xs ys"
proof (induction xs arbitrary: ys)
  case Nil
  then show ?case by simp
next
  case (Cons x xs)
  then show ?case by (cases ys) auto
qed
lemma same_leafwise_list:
  "list_all2 (same_leafwise f) xs ys \<Longrightarrow>
     map structure_of ys = map structure_of xs
     \<and> map Inr (concat (map flatten ys)) = map f (concat (map flatten xs))"
  by (induction xs ys rule: list_all2_induct) (simp_all add: same_leafwise_def)

lemma same_leafwise_dict:
  "list_all2 (\<lambda>kv ky. fst ky = fst kv \<and> same_leafwise f (snd kv) (snd ky)) kvs kys \<Longrightarrow>
     map (\<lambda>(k, v). (k, structure_of v)) kys = map (\<lambda>(k, v). (k, structure_of v)) kvs
     \<and> map Inr (concat (map (\<lambda>(k, v). flatten v) kys))
         = map f (concat (map (\<lambda>(k, v). flatten v) kvs))"
  by (induction kvs kys rule: list_all2_induct) (auto simp: same_leafwise_def)

lemma map_structure_Inr: "map_structure f t = Inr u \<Longrightarrow> same_leafwise f t u"
proof (induction t arbitrary: u)
  case (Leaf x)
  then show ?case by (auto simp: same_leafwise_def split: sum.splits)
next
  case (ListOf xs)
  from ListOf.prems obtain ys
    where ys: "map (map_structure f) xs = map Inr ys" and u: "u = ListOf ys"
    by (auto split: sum.splits simp: sequence_e_Inr)
  from ys have "list_all2 (\<lambda>x y. map_structure f x = Inr y) xs ys"
    by (rule map_Inr_all2)
  then have "list_all2 (same_leafwise f) xs ys"
    by (rule list.rel_mono_strong) (simp add: ListOf.IH)
  from same_leafwise_list [OF this] u show ?case
    by (simp add: same_leafwise_def)
next
  case (TupleOf xs)
  from TupleOf.prems obtain ys
    where ys: "map (map_structure f) xs = map Inr ys" and u: "u = TupleOf ys"
    by (auto split: sum.splits simp: sequence_e_Inr)
  from ys have "list_all2 (\<lambda>x y. map_structure f x = Inr y) xs ys"
    by (rule map_Inr_all2)
  then have "list_all2 (same_leafwise f) xs ys"
    by (rule list.rel_mono_strong) (simp add: TupleOf.IH)
  from same_leafwise_list [OF this] u show ?case
    by (simp add: same_leafwise_def)
next
  case (DictOf kvs)
  from DictOf.prems obtain kys
    where kys: "map (\<lambda>(k, v). with_key k (map_structure f v)) kvs = map Inr kys"
      and u: "u = DictOf kys"
    by (auto split: sum.splits simp: sequence_e_Inr)
  from kys have "list_all2 (\<lambda>kv ky. (\<lambda>(k, v). with_key k (map_structure f v)) kv = Inr ky) kvs kys"
    by (rule map_Inr_all2)
  then have "list_all2 (\<lambda>kv ky. fst ky = fst kv \<and> same_leafwise f (snd kv) (snd ky)) kvs kys"
  proof (rule list.rel_mono_strong)
    fix kv ky
    assume mem: "kv \<in> set kvs"
      and conv: "(\<lambda>(k, v). with_key k (map_structure f v)) kv = Inr ky"
    obtain k v where kv: "kv = (k, v)" by (cases kv)
    with conv obtain y where y: "map_structure f v = Inr y" and ky: "ky = (k, y)"
      by (auto simp: with_key_Inr)
    have "v \<in> Basic_BNFs.snds kv" using kv by simp
    with mem have "same_leafwise f v y" using y by (rule DictOf.IH)
    with kv ky show "fst ky = fst kv \<and> same_leafwise f (snd kv) (snd ky)" by simp
  qed
  from same_leafwise_dict [OF this] u show ?case
    by (simp add: same_leafwise_def)
qed

lemma sequence_e_succeeds:
  "(\<And>r. r \<in> set rs \<Longrightarrow> \<exists>y. r = Inr y) \<Longrightarrow> \<exists>ys. sequence_e rs = Inr ys"
proof (induction rs)
  case Nil
  show ?case by simp
next
  case (Cons r rs)
  then obtain y ys where "r = Inr y" and "sequence_e rs = Inr ys"
    by (metis list.set_intros(1) list.set_intros(2))
  then show ?case by simp
qed

lemma map_structure_succeeds:
  "(\<And>x. x \<in> set (flatten t) \<Longrightarrow> \<exists>y. f x = Inr y) \<Longrightarrow> \<exists>u. map_structure f t = Inr u"
proof (induction t)
  case (Leaf x)
  then obtain y where "f x = Inr y" by auto
  then show ?case by simp
next
  case (ListOf xs)
  have "\<exists>ys. sequence_e (map (map_structure f) xs) = Inr ys"
  proof (rule sequence_e_succeeds)
    fix r assume "r \<in> set (map (map_structure f) xs)"
    then obtain x where x: "x \<in> set xs" and r: "r = map_structure f x" by auto
    have "\<exists>u. map_structure f x = Inr u"
      using x ListOf.prems by (intro ListOf.IH) auto
    with r show "\<exists>y. r = Inr y" by simp
  qed
  then show ?case by auto
next
  case (TupleOf xs)
  have "\<exists>ys. sequence_e (map (map_structure f) xs) = Inr ys"
  proof (rule sequence_e_succeeds)
    fix r assume "r \<in> set (map (map_structure f) xs)"
    then obtain x where x: "x \<in> set xs" and r: "r = map_structure f x" by auto
    have "\<exists>u. map_structure f x = Inr u"
      using x TupleOf.prems by (intro TupleOf.IH) auto
    with r show "\<exists>y. r = Inr y" by simp
  qed
  then show ?case by auto
next
  case (DictOf kvs)
  have "\<exists>kys. sequence_e (map (\<lambda>(k, v). with_key k (map_structure f v)) kvs) = Inr kys"
  proof (rule sequence_e_succeeds)
    fix r assume "r \<in> set (map (\<lambda>(k, v). with_key k (map_structure f v)) kvs)"
    then obtain k v where kv: "(k, v) \<in> set kvs" and r: "r = with_key k (map_structure f v)"
      by auto
    have "\<exists>u. map_structure f v = Inr u"
    proof (rule DictOf.IH [OF kv])
      show "v \<in> Basic_BNFs.snds (k, v)" by simp
      fix x assume "x \<in> set (flatten v)"
      with kv have "x \<in> set (flatten (DictOf kvs))" by auto
      then show "\<exists>y. f x = Inr y" by (rule DictOf.prems)
    qed
    with r show "\<exists>y. r = Inr y" by auto
  qed
  then show ?case by auto
qed

lemma map_Inr_eq: "map Inr xs = map (\<lambda>s. Inr (f s)) ys \<Longrightarrow> xs = map f ys"
  by (induction xs arbitrary: ys) auto

text \<open>
  C9. Converting a nested structure of specs gives a structure with the same containers,
  the same keys and the same order, whose leaves are the converted leaves. With
  \<^verbatim>\<open>_convert_spec\<close> the conversion always returns; with \<^verbatim>\<open>_convert_action_spec\<close> it returns
  whenever every leaf is well-formed, and whatever it returns has the structure of the
  input. In the example that follows, a dictionary of two leaves becomes a dictionary of
  two leaves under the same keys.
\<close>

theorem map_structure_preserves_structure:
  "(\<exists>u. map_structure (\<lambda>s. Inr (convert_spec s)) t = Inr u
         \<and> structure_of u = structure_of t \<and> flatten u = map convert_spec (flatten t))
   \<and> (\<forall>u. map_structure convert_action_spec t = Inr u \<longrightarrow>
          structure_of u = structure_of t
          \<and> map Inr (flatten u) = map convert_action_spec (flatten t))
   \<and> (list_all spec_wf (flatten t) \<longrightarrow> (\<exists>u. map_structure convert_action_spec t = Inr u))"
proof (intro conjI allI impI)
  obtain u where u: "map_structure (\<lambda>s. Inr (convert_spec s)) t = Inr u"
    using map_structure_succeeds [of t "\<lambda>s. Inr (convert_spec s)"] by auto
  have "same_leafwise (\<lambda>s. Inr (convert_spec s)) t u"
    using u by (rule map_structure_Inr)
  then have "structure_of u = structure_of t" and "flatten u = map convert_spec (flatten t)"
    unfolding same_leafwise_def by (blast intro: map_Inr_eq)+
  with u show "\<exists>u. map_structure (\<lambda>s. Inr (convert_spec s)) t = Inr u
         \<and> structure_of u = structure_of t \<and> flatten u = map convert_spec (flatten t)"
    by simp
next
  fix u assume "map_structure convert_action_spec t = Inr u"
  from map_structure_Inr [OF this]
  show "structure_of u = structure_of t"
    and "map Inr (flatten u) = map convert_action_spec (flatten t)"
    unfolding same_leafwise_def by blast+
next
  assume "list_all spec_wf (flatten t)"
  then show "\<exists>u. map_structure convert_action_spec t = Inr u"
    by (intro map_structure_succeeds convert_action_spec_succeeds) (simp add: list_all_iff)
qed

theorem map_structure_preserves_structure_witness:
  "list_all spec_wf (flatten example_tree)
   \<and> map_structure (\<lambda>s. Inr (convert_spec s)) example_tree
       = Inr (DictOf [(''position'', Leaf (BoundedArray [2] Int32 \<lparr>nd_shape = [], nd_data = [0]\<rparr>
                                             \<lparr>nd_shape = [2], nd_data = [4, 9]\<rparr> (Some ''position''))),
                      (''move'', Leaf (BoundedArray [] Int32 \<lparr>nd_shape = [], nd_data = [0]\<rparr>
                                         \<lparr>nd_shape = [], nd_data = [4]\<rparr> (Some ''action'')))])
   \<and> map_structure convert_action_spec example_tree
       = Inr (DictOf [(''position'', Leaf (BoundedArray [2] Int32 \<lparr>nd_shape = [], nd_data = [0]\<rparr>
                                             \<lparr>nd_shape = [2], nd_data = [4, 9]\<rparr> (Some ''position''))),
                      (''move'', Leaf (DiscreteArray 5 Int32 (Some ''action'')))])"
  using map_structure_preserves_structure [of example_tree]
  by (simp add: example_tree_def example_bounded_def example_discrete_def spec_wf_def nd_wf_def
      nd_size_def broadcastable_to_def convert_spec_def convert_action_spec_def item_def)

section \<open>Properties of the adapter\<close>

text \<open>
  C5. Over an environment whose \<^verbatim>\<open>batched\<close> flag is true, \<^verbatim>\<open>__init__\<close> raises
  NotImplementedError. The environment is left in the state it had, no adapter is
  returned, and none of the three spec methods of the environment has been called, so
  no spec has been converted.
\<close>

theorem init_batched:
  "batched env e0 \<Longrightarrow>
     \<exists>log. init env e0 = Inl (NotImplementedError, e0, log) \<and> filter is_spec_call log = []"
  by (simp add: init_def)

theorem init_batched_witness:
  "batched (example_env True) 0
   \<and> init (example_env True) 0 = Inl (NotImplementedError, 0, [Get_batched])"
  using init_batched [of "example_env True" 0]
  by (simp add: example_env_def init_def)

lemma call_method_frame:
  "call_method env c self = (r, self') \<Longrightarrow>
     observation_spec_attr self' = observation_spec_attr self
     \<and> action_spec_attr self' = action_spec_attr self
     \<and> discount_spec_attr self' = discount_spec_attr self
     \<and> filter is_spec_call (env_calls self') = filter is_spec_call (env_calls self)
     \<and> returns_cached self c r"
  by (cases c)
    (auto simp: reset_def step_def close_def observation_spec_def action_spec_def
      discount_spec_def split: prod.splits)

lemma returns_cached_cong:
  "observation_spec_attr self' = observation_spec_attr self \<Longrightarrow>
   action_spec_attr self' = action_spec_attr self \<Longrightarrow>
   discount_spec_attr self' = discount_spec_attr self \<Longrightarrow>
   returns_cached self' c r = returns_cached self c r"
  by (cases c) simp_all

lemma call_methods_frame:
  "call_methods env cs self = (rs, self') \<Longrightarrow>
     observation_spec_attr self' = observation_spec_attr self
     \<and> action_spec_attr self' = action_spec_attr self
     \<and> discount_spec_attr self' = discount_spec_attr self
     \<and> filter is_spec_call (env_calls self') = filter is_spec_call (env_calls self)
     \<and> list_all2 (returns_cached self) cs rs"
proof (induction cs arbitrary: self rs self')
  case Nil
  then show ?case by simp
next
  case (Cons c cs)
  obtain r self1 where one: "call_method env c self = (r, self1)"
    by (cases "call_method env c self")
  obtain rs1 self2 where rest: "call_methods env cs self1 = (rs1, self2)"
    by (cases "call_methods env cs self1")
  from Cons.prems one rest have rs: "rs = r # rs1" and s: "self' = self2" by simp_all
  note f1 = call_method_frame [OF one]
  note f2 = Cons.IH [OF rest]
  from f1 f2 have "list_all2 (returns_cached self) cs rs1"
    using returns_cached_cong [of self1 self]
    by (auto elim!: list.rel_mono_strong)
  with f1 f2 rs s show ?case by simp
qed

lemma init_Inr:
  "init env e0 = Inr self \<Longrightarrow>
     \<not> batched env e0
     \<and> (\<exists>ospec e1 aspec e2 dspec.
           env_observation_spec env e0 = (Inr ospec, e1)
           \<and> env_action_spec env e1 = (Inr aspec, e2)
           \<and> env_discount_spec env e2 = (Inr dspec, env_state self)
           \<and> map_structure (\<lambda>s. Inr (convert_spec s)) ospec = Inr (observation_spec_attr self)
           \<and> map_structure convert_action_spec aspec = Inr (action_spec_attr self)
           \<and> map_structure (\<lambda>s. Inr (convert_spec s)) dspec = Inr (discount_spec_attr self))
     \<and> env_calls self = [Get_batched, Call_observation_spec, Call_action_spec, Call_discount_spec]"
  unfolding init_def
  by (auto split: if_splits prod.splits sum.splits)

text \<open>
  C8. When \<^verbatim>\<open>__init__\<close> returns an adapter, each spec method of the environment has been
  called exactly once, and the three attributes are the conversions of what these calls
  returned. After any sequence of calls of \<^verbatim>\<open>reset\<close>, \<^verbatim>\<open>step\<close>, \<^verbatim>\<open>close\<close> and the three spec
  accessors, the attributes are unchanged, no further call of a spec method of the
  environment has been made, and every call of an accessor has returned the attribute.
\<close>

theorem specs_cached:
  assumes "init env e0 = Inr self"
  shows "count_list (env_calls self) Call_observation_spec = 1
     \<and> count_list (env_calls self) Call_action_spec = 1
     \<and> count_list (env_calls self) Call_discount_spec = 1
     \<and> (\<exists>ospec e1 aspec e2 dspec.
           env_observation_spec env e0 = (Inr ospec, e1)
           \<and> env_action_spec env e1 = (Inr aspec, e2)
           \<and> env_discount_spec env e2 = (Inr dspec, env_state self)
           \<and> map_structure (\<lambda>s. Inr (convert_spec s)) ospec = Inr (observation_spec_attr self)
           \<and> map_structure convert_action_spec aspec = Inr (action_spec_attr self)
           \<and> map_structure (\<lambda>s. Inr (convert_spec s)) dspec = Inr (discount_spec_attr self))
     \<and> (\<forall>cs rs self'. call_methods env cs self = (rs, self') \<longrightarrow>
           observation_spec_attr self' = observation_spec_attr self
           \<and> action_spec_attr self' = action_spec_attr self
           \<and> discount_spec_attr self' = discount_spec_attr self
           \<and> filter is_spec_call (env_calls self') = filter is_spec_call (env_calls self)
           \<and> list_all2 (returns_cached self) cs rs)"
proof -
  note i = init_Inr [OF assms]
  from i have "count_list (env_calls self) Call_observation_spec = 1"
    and "count_list (env_calls self) Call_action_spec = 1"
    and "count_list (env_calls self) Call_discount_spec = 1"
    by simp_all
  moreover have "\<forall>cs rs self'. call_methods env cs self = (rs, self') \<longrightarrow>
           observation_spec_attr self' = observation_spec_attr self
           \<and> action_spec_attr self' = action_spec_attr self
           \<and> discount_spec_attr self' = discount_spec_attr self
           \<and> filter is_spec_call (env_calls self') = filter is_spec_call (env_calls self)
           \<and> list_all2 (returns_cached self) cs rs"
    using call_methods_frame by blast
  ultimately show ?thesis using i by blast
qed

theorem specs_cached_witness:
  "init (example_env False) 0 = Inr example_wrapper
   \<and> fst (call_methods (example_env False) [ObservationSpec, Reset, Step 1, ObservationSpec]
            example_wrapper)
       = [Inr (SpecResult (Leaf (Array [0] Float32 None))),
          Inr (TimeStepResult \<lparr>dm_step_type = FIRST, dm_reward = PyFloat 0,
                 dm_discount = PyFloat 1, dm_observation = [3]\<rparr>),
          Inr (TimeStepResult \<lparr>dm_step_type = MID,
                 dm_reward = NdArray \<lparr>nd_shape = [], nd_data = [7 / 2]\<rparr>,
                 dm_discount = NdArray \<lparr>nd_shape = [2], nd_data = [1, 1 / 2]\<rparr>,
                 dm_observation = [4, 5]\<rparr>),
          Inr (SpecResult (Leaf (Array [0] Float32 None)))]"
proof -
  have i: "init (example_env False) 0 = Inr example_wrapper"
    by (simp add: init_def example_env_def example_wrapper_def example_tree_def
        example_bounded_def example_discrete_def convert_spec_def convert_action_spec_def
        item_def)
  show ?thesis
    using i specs_cached [OF i]
    by (simp add: example_env_def example_wrapper_def observation_spec_def reset_def step_def
        convert_timestep_def squeeze_def example_first_step_def example_mid_step_def)
qed

end
